theory Spec2Isabelle
  imports Complex_Main
begin

section \<open>plot_analysis.py: the data model\<close>

text \<open>
  The script holds literal timing tables, hands them to a charting library and prints
  progress lines. NumPy's \<^verbatim>\<open>int64\<close> and \<^verbatim>\<open>float64\<close> arrays are modelled as
  lists of real numbers: the arithmetic the script performs (elementwise division,
  powers, base-2 logarithms) is taken exactly, without rounding.

  The dictionary returned by \<^verbatim>\<open>create_sample_data\<close> has eight fixed keys; it is a
  record whose fields carry the names of the arrays in the source
  (key \<^verbatim>\<open>'bubble'\<close> is field \<open>bubble_times\<close>, key \<^verbatim>\<open>'linear'\<close> is field
  \<open>linear_search\<close>, and so on).
\<close>

record dataset =
  sizes :: "real list"
  bubble_times :: "real list"
  insertion_times :: "real list"
  merge_times :: "real list"
  quick_times :: "real list"
  search_sizes :: "real list"
  linear_search :: "real list"
  binary_search :: "real list"

subsection \<open>Exceptions\<close>

datatype exc_class =
    ModuleNotFoundError | ImportError | IndexError | ValueError | OSError
  | RuntimeError | MemoryError | KeyboardInterrupt

datatype pyexc = PyExc (cls: exc_class) (msg: string)

text \<open>\<^verbatim>\<open>except ImportError\<close> also catches the subclass \<^verbatim>\<open>ModuleNotFoundError\<close>;
  \<^verbatim>\<open>except Exception\<close> catches every class listed here but
  \<^verbatim>\<open>KeyboardInterrupt\<close>, which derives from \<^verbatim>\<open>BaseException\<close> directly.\<close>

fun isinstance_ImportError :: "pyexc \<Rightarrow> bool" where
  "isinstance_ImportError (PyExc c m) = (c = ImportError \<or> c = ModuleNotFoundError)"

fun isinstance_Exception :: "pyexc \<Rightarrow> bool" where
  "isinstance_Exception (PyExc c m) = (c \<noteq> KeyboardInterrupt)"

subsection \<open>What the program does to the outside: library calls and printed lines\<close>

text \<open>
  Every call into the charting library and every \<^verbatim>\<open>print\<close> is an event. A call
  records its data arguments, its format string and its label; pure styling keywords
  (\<^verbatim>\<open>linewidth\<close>, \<^verbatim>\<open>markersize\<close>, \<^verbatim>\<open>alpha\<close>, \<^verbatim>\<open>figsize\<close>, \<^verbatim>\<open>dpi\<close>,
  text offsets, arrow properties) are left out. A call without a label or format string
  has the empty string there. f-strings that format a number are recorded as the
  template and the number, unformatted. \<^verbatim>\<open>plt.show()\<close> is a call like the others:
  it returns or it raises.
\<close>

datatype event =
    Figure
  | Subplots
  | Subplot nat nat nat
  | Plot "real list" "real list" string string
  | Loglog "real list" "real list" string string
  | Semilogy "real list" "real list" string string
  | Bar "real list" "real list" real string
  | Annotate string real "real \<times> real"
  | Axvspan real real string string
  | Xlabel string
  | Ylabel string
  | Title string
  | Xticks "real list" "(real \<times> real) list"
  | Legend
  | Grid
  | Tight_layout
  | Savefig string
  | Show
  | Print string

text \<open>
  The program state: the objects the script has allocated (the dataset dictionaries,
  addressed by their position), the events so far, and the exception that is
  propagating, if any. While an exception propagates no statement runs.
\<close>

record state =
  store :: "dataset list"
  trace :: "event list"
  raised :: "pyexc option"

definition init_state :: state where
  "init_state = \<lparr>store = [], trace = [], raised = None\<rparr>"

text \<open>
  The environment of a run: what importing a module raises (\<open>None\<close> when the module
  is installed), and what a library call raises (\<open>None\<close> when it succeeds).
\<close>

record env =
  import_error :: "string \<Rightarrow> pyexc option"
  fault :: "event \<Rightarrow> pyexc option"

definition import_module :: "env \<Rightarrow> string \<Rightarrow> state \<Rightarrow> state" where
  "import_module e name s =
     (if raised s \<noteq> None then s
      else case import_error e name of
             None \<Rightarrow> s
           | Some x \<Rightarrow> s\<lparr>raised := Some x\<rparr>)"

definition print_line :: "string \<Rightarrow> state \<Rightarrow> state" where
  "print_line l s = (if raised s \<noteq> None then s else s\<lparr>trace := trace s @ [Print l]\<rparr>)"

text \<open>Library calls in program order; the first one that fails raises, and the rest
  are not reached.\<close>

fun run_calls :: "env \<Rightarrow> event list \<Rightarrow> state \<Rightarrow> state" where
  "run_calls e [] s = s"
| "run_calls e (c # cs) s =
     (case fault e c of
        Some x \<Rightarrow> s\<lparr>raised := Some x\<rparr>
      | None \<Rightarrow> run_calls e cs (s\<lparr>trace := trace s @ [c]\<rparr>))"

text \<open>
  A routine's body is given as the library calls it makes, in order, together with the
  exception its own array arithmetic raises after them (if it does, the calls after that
  point are not in the list).
\<close>

definition run :: "env \<Rightarrow> event list \<times> pyexc option \<Rightarrow> state \<Rightarrow> state" where
  "run e body s =
     (if raised s \<noteq> None then s
      else let s' = run_calls e (fst body) s in
        if raised s' \<noteq> None then s'
        else case snd body of None \<Rightarrow> s' | Some x \<Rightarrow> s'\<lparr>raised := Some x\<rparr>)"

subsection \<open>NumPy operations the script uses\<close>

text \<open>
  Elementwise division of two one-dimensional arrays with NumPy's broadcasting: equal
  lengths divide pointwise, an array of length one is stretched over the other, any
  other pair of lengths raises \<^verbatim>\<open>ValueError\<close>. (Where a divisor is zero NumPy yields
  an infinity or a NaN and warns; real division does not model that, and the theorems
  below exclude zero divisors.)
\<close>

definition np_divide :: "real list \<Rightarrow> real list \<Rightarrow> pyexc + real list" where
  "np_divide xs ys =
     (if length xs = length ys then Inr (map (\<lambda>(x, y). x / y) (zip xs ys))
      else if length xs = 1 then Inr (map (\<lambda>y. hd xs / y) ys)
      else if length ys = 1 then Inr (map (\<lambda>x. x / hd ys) xs)
      else Inl (PyExc ValueError ''operands could not be broadcast together''))"

definition linspace :: "real \<Rightarrow> real \<Rightarrow> nat \<Rightarrow> real list" where
  "linspace start stop num =
     map (\<lambda>k. start + real k * ((stop - start) / real (num - 1))) [0..<num]"

definition logspace :: "real \<Rightarrow> real \<Rightarrow> nat \<Rightarrow> real list" where
  "logspace start stop num = map (\<lambda>y. 10 powr y) (linspace start stop num)"

definition arange :: "nat \<Rightarrow> real list" where
  "arange n = map real [0..<n]"

subsection \<open>Text outside ASCII, as UTF-8 bytes\<close>

definition sup2 :: string where
  "sup2 = [CHR 0xC2, CHR 0xB2]"

definition supn :: string where
  "supn = [CHR 0xE2, CHR 0x81, CHR 0xBF]"

definition check_mark :: string where
  "check_mark = [CHR 0xE2, CHR 0x9C, CHR 0x93]"

definition sq :: string where
  "sq = [CHR 0x27]"

section \<open>The routines\<close>

subsection \<open>create_sample_data\<close>

text \<open>Builds the dictionary from literals and returns a reference to the new object.\<close>

definition create_sample_data :: "state \<Rightarrow> nat \<times> state" where
  "create_sample_data s =
     (length (store s),
      s\<lparr>store := store s @
        [\<lparr>sizes = [1000, 2000, 5000, 10000, 20000],
          bubble_times = [12, 45, 280, 1100, 4400],
          insertion_times = [8, 30, 190, 750, 3000],
          merge_times = [2, 4, 12, 25, 55],
          quick_times = [1.5, 3.5, 10, 22, 48],
          search_sizes = [1000, 5000, 10000, 50000, 100000],
          linear_search = [0.8, 4.2, 8.5, 42, 85],
          binary_search = [0.01, 0.015, 0.018, 0.025, 0.028]\<rparr>]\<rparr>)"

text \<open>The record a call of the constructor in state \<open>s\<close> returns a reference to.\<close>

definition sample_of :: "state \<Rightarrow> dataset" where
  "sample_of s = (case create_sample_data s of (data, s') \<Rightarrow> store s' ! data)"

subsection \<open>plot_sorting_comparison\<close>

text \<open>
  The body in program order. \<^verbatim>\<open>sizes[0]\<close> raises \<^verbatim>\<open>IndexError\<close> on an empty
  array, after the calls of the first two subplots that precede it. The slices
  \<^verbatim>\<open>a[1:]\<close> and \<^verbatim>\<open>a[:-1]\<close> are \<open>tl\<close> and \<open>butlast\<close> (both empty on an
  empty array); they are read, never written through.
\<close>

definition plot_sorting_comparison_calls :: "dataset \<Rightarrow> event list \<times> pyexc option" where
  "plot_sorting_comparison_calls d =
     (let szs = sizes d;
          part1 =
            [Figure,
             Subplot 2 2 1,
             Plot szs (bubble_times d) ''ro-'' (''Bubble Sort O(n'' @ sup2 @ '')''),
             Plot szs (insertion_times d) ''bo-'' (''Insertion Sort O(n'' @ sup2 @ '')''),
             Plot szs (merge_times d) ''go-'' ''Merge Sort O(n log n)'',
             Plot szs (quick_times d) ''mo-'' ''Quick Sort O(n log n)'',
             Xlabel ''Input Size (n)'',
             Ylabel ''Time (milliseconds)'',
             Title ''Sorting Algorithm Performance Comparison'',
             Legend,
             Grid,
             Subplot 2 2 2,
             Loglog szs (bubble_times d) ''ro-'' ''Bubble Sort'',
             Loglog szs (insertion_times d) ''bo-'' ''Insertion Sort'',
             Loglog szs (merge_times d) ''go-'' ''Merge Sort'',
             Loglog szs (quick_times d) ''mo-'' ''Quick Sort'']
      in if szs = [] then
           (part1, Some (PyExc IndexError ''index 0 is out of bounds for axis 0 with size 0''))
         else
           let x_theory = linspace (hd szs) (last szs) 100;
               part2 =
                 [Loglog x_theory (map (\<lambda>x. (x / 1000) ^ 2 * 10) x_theory)
                    ''r--'' (''Theoretical O(n'' @ sup2 @ '')''),
                  Loglog x_theory (map (\<lambda>x. (x / 1000) * log 2 (x / 1000) * 2) x_theory)
                    ''g--'' ''Theoretical O(n log n)'',
                  Xlabel ''Input Size (n) - Log Scale'',
                  Ylabel ''Time (ms) - Log Scale'',
                  Title ''Log-Log Scale: Theory vs Practice'',
                  Legend,
                  Grid,
                  Subplot 2 2 3,
                  Plot szs (merge_times d) ''go-'' ''Merge Sort'',
                  Plot szs (quick_times d) ''mo-'' ''Quick Sort'',
                  Xlabel ''Input Size (n)'',
                  Ylabel ''Time (milliseconds)'',
                  Title ''O(n log n) Algorithms Comparison'',
                  Legend,
                  Grid,
                  Subplot 2 2 4]
           in case np_divide (tl (bubble_times d)) (butlast (bubble_times d)) of
                Inl x \<Rightarrow> (part1 @ part2, Some x)
              | Inr bubble_growth \<Rightarrow>
                  (case np_divide (tl (merge_times d)) (butlast (merge_times d)) of
                     Inl x \<Rightarrow> (part1 @ part2, Some x)
                   | Inr merge_growth \<Rightarrow>
                       let x_pos = arange (length bubble_growth) in
                       (part1 @ part2 @
                        [Bar (map (\<lambda>x. x - 0.2) x_pos) bubble_growth 0.4
                           ''Bubble Sort Growth Rate'',
                         Bar (map (\<lambda>x. x + 0.2) x_pos) merge_growth 0.4
                           ''Merge Sort Growth Rate'',
                         Xlabel ''Size Transition'',
                         Ylabel ''Time Ratio (t[i+1]/t[i])'',
                         Title ''Performance Growth Rates'',
                         Xticks x_pos
                           (map (\<lambda>i. (szs ! i, szs ! (i + 1))) [0..<length szs - 1]),
                         Legend,
                         Grid,
                         Tight_layout,
                         Savefig ''sorting_analysis.png'',
                         Show],
                        None)))"

definition plot_sorting_comparison :: "env \<Rightarrow> nat \<Rightarrow> state \<Rightarrow> state" where
  "plot_sorting_comparison e data s = run e (plot_sorting_comparison_calls (store s ! data)) s"

subsection \<open>plot_search_comparison\<close>

definition plot_search_comparison_calls :: "dataset \<Rightarrow> event list \<times> pyexc option" where
  "plot_search_comparison_calls d =
     (let szs = search_sizes d;
          part1 =
            [Figure,
             Subplot 1 2 1,
             Plot szs (linear_search d) ''ro-'' ''Linear Search O(n)'',
             Plot szs (binary_search d) ''bo-'' ''Binary Search O(log n)'',
             Xlabel ''Array Size (n)'',
             Ylabel ''Time (milliseconds)'',
             Title ''Search Algorithm Comparison'',
             Legend,
             Grid,
             Subplot 1 2 2]
      in case np_divide (linear_search d) (binary_search d) of
           Inl x \<Rightarrow> (part1, Some x)
         | Inr efficiency_ratio \<Rightarrow>
             (part1 @
              [Plot szs efficiency_ratio ''go-'' [],
               Xlabel ''Array Size (n)'',
               Ylabel ''Linear Time / Binary Time'',
               Title ''Binary Search Efficiency Advantage'',
               Grid] @
              map (\<lambda>(size, ratio). Annotate ''{ratio:.1f}x'' ratio (size, ratio))
                (zip szs efficiency_ratio) @
              [Tight_layout,
               Savefig ''search_analysis.png'',
               Show],
              None))"

definition plot_search_comparison :: "env \<Rightarrow> nat \<Rightarrow> state \<Rightarrow> state" where
  "plot_search_comparison e data s = run e (plot_search_comparison_calls (store s ! data)) s"

subsection \<open>plot_fibonacci_analysis\<close>

text \<open>The arrays this routine builds from literals in its own body.\<close>

definition n_values :: "real list" where
  "n_values = [10, 15, 20, 25, 30, 35, 40]"

definition naive_calls :: "real list" where
  "naive_calls = [177, 1973, 21891, 242785, 2692537, 29860703, 331160281]"

definition memo_calls :: "real list" where
  "memo_calls = [19, 29, 39, 49, 59, 69, 79]"

definition naive_times :: "real list" where
  "naive_times = [0.001, 0.01, 0.1, 1.2, 13.5, 152, 1680]"

definition memo_times :: "real list" where
  "memo_times = [0.001, 0.001, 0.001, 0.001, 0.002, 0.002, 0.002]"

definition plot_fibonacci_analysis_calls :: "event list \<times> pyexc option" where
  "plot_fibonacci_analysis_calls =
     ([Figure,
       Subplot 1 2 1,
       Semilogy n_values naive_calls ''ro-'' (''Naive Fibonacci O(2'' @ supn @ '')''),
       Semilogy n_values memo_calls ''bo-'' ''Memoized Fibonacci O(n)'',
       Xlabel ''n (Fibonacci number)'',
       Ylabel ''Function Calls (log scale)'',
       Title ''Recursive Calls: Naive vs Memoized'',
       Legend,
       Grid,
       Subplot 1 2 2,
       Semilogy n_values naive_times ''ro-'' ''Naive Fibonacci'',
       Semilogy n_values memo_times ''bo-'' ''Memoized Fibonacci'',
       Xlabel ''n (Fibonacci number)'',
       Ylabel ''Time (milliseconds, log scale)'',
       Title ''Execution Time: Exponential vs Linear'',
       Legend,
       Grid,
       Annotate ''n=40: {naive_times[-1]/memo_times[-1]:.0f}x slower!''
         (last naive_times / last memo_times)
         (40, last naive_times),
       Tight_layout,
       Savefig ''fibonacci_analysis.png'',
       Show],
      None)"

definition plot_fibonacci_analysis :: "env \<Rightarrow> state \<Rightarrow> state" where
  "plot_fibonacci_analysis e s = run e plot_fibonacci_analysis_calls s"

subsection \<open>create_complexity_cheatsheet\<close>

definition create_complexity_cheatsheet_calls :: "event list \<times> pyexc option" where
  "create_complexity_cheatsheet_calls =
     (let n = logspace 1 4 1000 in
      ([Subplots,
        Loglog n (map (\<lambda>x. 1) n) [] ''O(1) - Hash table lookup'',
        Loglog n (map (\<lambda>x. log 2 x) n) [] ''O(log n) - Binary search'',
        Loglog n n [] ''O(n) - Linear search'',
        Loglog n (map (\<lambda>x. x * log 2 x) n) [] ''O(n log n) - Merge/Quick sort'',
        Loglog n (map (\<lambda>x. x ^ 2) n) [] (''O(n'' @ sup2 @ '') - Bubble/Insertion sort''),
        Loglog n (map (\<lambda>x. 2 powr log 2 x) n) [] (''O(2'' @ supn @ '') - Naive Fibonacci''),
        Axvspan 1 100 ''green'' ''Small n: Simple algorithms OK'',
        Axvspan 100 10000 ''yellow'' ''Medium n: Efficiency matters'',
        Axvspan 10000 100000 ''red'' ''Large n: Only efficient algorithms'',
        Xlabel ''Input Size (n)'',
        Ylabel ''Operations / Time (arbitrary units)'',
        Title ''Algorithm Complexity Comparison'',
        Legend,
        Grid,
        Tight_layout,
        Savefig ''complexity_cheatsheet.png'',
        Show],
       None))"

definition create_complexity_cheatsheet :: "env \<Rightarrow> state \<Rightarrow> state" where
  "create_complexity_cheatsheet e s = run e create_complexity_cheatsheet_calls s"

subsection \<open>main and the script's top level\<close>

definition main :: "env \<Rightarrow> state \<Rightarrow> state" where
  "main e s0 =
     (let s = print_line ''Algorithm Performance Analysis'' s0;
          s = print_line (replicate 40 CHR ''='') s;
          (data, s) = create_sample_data s;
          s = print_line ''Generating performance analysis plots...'' s;
          s = plot_sorting_comparison e data s;
          s = print_line (check_mark @ '' Sorting algorithm comparison saved as '' @
                sq @ ''sorting_analysis.png'' @ sq) s;
          s = plot_search_comparison e data s;
          s = print_line (check_mark @ '' Search algorithm comparison saved as '' @
                sq @ ''search_analysis.png'' @ sq) s;
          s = plot_fibonacci_analysis e s;
          s = print_line (check_mark @ '' Fibonacci recursion analysis saved as '' @
                sq @ ''fibonacci_analysis.png'' @ sq) s;
          s = create_complexity_cheatsheet e s;
          s = print_line (check_mark @ '' Complexity reference chart saved as '' @
                sq @ ''complexity_cheatsheet.png'' @ sq) s;
          s = print_line (CHR 0x0A # ''Analysis complete! Use these plots in your report.'') s;
          s = print_line (CHR 0x0A # ''To use your own data:'') s;
          s = print_line ''1. Export measurements to CSV format'' s;
          s = print_line ''2. Replace the create_sample_data() function'' s;
          s = print_line ''3. Modify column names to match your CSV structure'' s
      in s)"

text \<open>
  The module's top level, run as a script: the four imports of lines 12 to 15 come
  first, outside any \<^verbatim>\<open>try\<close>; the function definitions follow; the guarded block
  at the end calls \<open>main\<close> inside the \<^verbatim>\<open>try\<close>. A final state with an exception
  still raised is a run that the interpreter ends with a traceback and a failure status;
  a final state without one is a run that ends normally.
\<close>

definition module_imports :: "env \<Rightarrow> state \<Rightarrow> state" where
  "module_imports e s =
     import_module e ''matplotlib.patches''
       (import_module e ''pandas''
         (import_module e ''numpy''
           (import_module e ''matplotlib.pyplot'' s)))"

definition program :: "env \<Rightarrow> state" where
  "program e =
     (let s = module_imports e init_state in
      if raised s \<noteq> None then s
      else
        let s = main e s in
        case raised s of
          None \<Rightarrow> s
        | Some x \<Rightarrow>
            if isinstance_ImportError x then
              print_line ''Install with: pip install matplotlib pandas numpy''
                (print_line (''Missing required package: '' @ msg x) (s\<lparr>raised := None\<rparr>))
            else if isinstance_Exception x then
              print_line ''Make sure you have the required data and packages installed.''
                (print_line (''Error: '' @ msg x) (s\<lparr>raised := None\<rparr>))
            else s)"

definition ends_normally :: "state \<Rightarrow> bool" where
  "ends_normally s = (raised s = None)"

section \<open>Observations and sample environments\<close>

text \<open>The events a user sees as results: a file written by \<^verbatim>\<open>savefig\<close>, and a
  printed confirmation line, which is a line that starts with the check mark.\<close>

definition is_output :: "event \<Rightarrow> bool" where
  "is_output c =
     (case c of
        Savefig p \<Rightarrow> True
      | Print l \<Rightarrow> take (length check_mark) l = check_mark
      | _ \<Rightarrow> False)"

definition is_curve :: "event \<Rightarrow> bool" where
  "is_curve c = (case c of Loglog xs ys f l \<Rightarrow> True | _ \<Rightarrow> False)"

definition is_band :: "event \<Rightarrow> bool" where
  "is_band c = (case c of Axvspan lo hi col l \<Rightarrow> True | _ \<Rightarrow> False)"

text \<open>Three environments: every package installed and every library call succeeding;
  matplotlib not installed; matplotlib installed but unable to load a backend when the
  first figure is created.\<close>

definition all_installed :: env where
  "all_installed = \<lparr>import_error = (\<lambda>m. None), fault = (\<lambda>c. None)\<rparr>"

definition no_matplotlib :: env where
  "no_matplotlib =
     \<lparr>import_error =
        (\<lambda>m. if m = ''matplotlib.pyplot'' \<or> m = ''matplotlib.patches''
             then Some (PyExc ModuleNotFoundError
                          (''No module named '' @ sq @ ''matplotlib'' @ sq))
             else None),
      fault = (\<lambda>c. None)\<rparr>"

definition no_backend :: env where
  "no_backend =
     \<lparr>import_error = (\<lambda>m. None),
      fault =
        (\<lambda>c. if c = Figure
             then Some (PyExc ImportError ''Cannot load backend'')
             else None)\<rparr>"

section \<open>Properties\<close>

subsection \<open>The sample dataset\<close>

lemma sample_of_eq:
  "sample_of s =
     \<lparr>sizes = [1000, 2000, 5000, 10000, 20000],
      bubble_times = [12, 45, 280, 1100, 4400],
      insertion_times = [8, 30, 190, 750, 3000],
      merge_times = [2, 4, 12, 25, 55],
      quick_times = [1.5, 3.5, 10, 22, 48],
      search_sizes = [1000, 5000, 10000, 50000, 100000],
      linear_search = [0.8, 4.2, 8.5, 42, 85],
      binary_search = [0.01, 0.015, 0.018, 0.025, 0.028]\<rparr>"
  by (simp add: sample_of_def create_sample_data_def)

text \<open>
  Claim C6. For each plotted dataset the parallel sequences have equal length: in the
  record the constructor returns, the sizes and the four sorting timing sequences have
  length 5, and so have the search sizes and the two search timing sequences; the five
  arrays of the Fibonacci routine have length 7.
\<close>

theorem parallel_sequences_equal_length:
  "length (sizes (sample_of s)) = 5 \<and>
   length (bubble_times (sample_of s)) = 5 \<and>
   length (insertion_times (sample_of s)) = 5 \<and>
   length (merge_times (sample_of s)) = 5 \<and>
   length (quick_times (sample_of s)) = 5 \<and>
   length (search_sizes (sample_of s)) = 5 \<and>
   length (linear_search (sample_of s)) = 5 \<and>
   length (binary_search (sample_of s)) = 5 \<and>
   length n_values = 7 \<and> length naive_calls = 7 \<and> length memo_calls = 7 \<and>
   length naive_times = 7 \<and> length memo_times = 7"
  by (simp add: sample_of_eq n_values_def naive_calls_def memo_calls_def
      naive_times_def memo_times_def)

text \<open>
  Claim C9. The dataset constructor is deterministic: whatever the state it is called
  in, the record it returns has the same eight sequences as the record of any other
  call, namely the literals of its body.
\<close>

theorem create_sample_data_deterministic:
  "sample_of s = sample_of s' \<and>
   (case create_sample_data s of (data, s1) \<Rightarrow>
      store s1 ! data =
        \<lparr>sizes = [1000, 2000, 5000, 10000, 20000],
         bubble_times = [12, 45, 280, 1100, 4400],
         insertion_times = [8, 30, 190, 750, 3000],
         merge_times = [2, 4, 12, 25, 55],
         quick_times = [1.5, 3.5, 10, 22, 48],
         search_sizes = [1000, 5000, 10000, 50000, 100000],
         linear_search = [0.8, 4.2, 8.5, 42, 85],
         binary_search = [0.01, 0.015, 0.018, 0.025, 0.028]\<rparr>)"
  by (simp add: sample_of_def create_sample_data_def)

text \<open>
  Claim C10. Every sequence used as an x-axis is strictly increasing: the sorting sizes
  [1000, 2000, 5000, 10000, 20000], the search sizes [1000, 5000, 10000, 50000, 100000]
  and the Fibonacci n-values [10, 15, 20, 25, 30, 35, 40].
\<close>

theorem x_axes_strictly_increasing:
  "sizes (sample_of s) = [1000, 2000, 5000, 10000, 20000] \<and>
   search_sizes (sample_of s) = [1000, 5000, 10000, 50000, 100000] \<and>
   n_values = [10, 15, 20, 25, 30, 35, 40] \<and>
   sorted_wrt (<) (sizes (sample_of s)) \<and>
   sorted_wrt (<) (search_sizes (sample_of s)) \<and>
   sorted_wrt (<) n_values"
  by (simp add: sample_of_eq n_values_def)

subsection \<open>Running library calls\<close>

lemma run_calls_store [simp]: "store (run_calls e cs s) = store s"
  by (induction cs arbitrary: s) (auto split: option.splits)

lemma run_store [simp]: "store (run e body s) = store s"
  by (simp add: run_def Let_def split: option.splits)

lemma print_line_store [simp]: "store (print_line l s) = store s"
  by (simp add: print_line_def)

lemma run_calls_normal:
  "raised (run_calls e cs s) = None \<Longrightarrow>
     raised s = None \<and> trace (run_calls e cs s) = trace s @ cs"
proof (induction cs arbitrary: s)
  case Nil
  then show ?case by simp
next
  case (Cons c cs)
  show ?case
  proof (cases "fault e c")
    case None
    with Cons.prems have "raised (run_calls e cs (s\<lparr>trace := trace s @ [c]\<rparr>)) = None"
      by simp
    from Cons.IH [OF this] None show ?thesis by simp
  next
    case (Some x)
    with Cons.prems show ?thesis by simp
  qed
qed

lemma run_normal:
  assumes "raised (run e body s) = None"
  shows "raised s = None \<and> snd body = None \<and> trace (run e body s) = trace s @ fst body"
proof -
  have n: "raised s = None"
  proof (rule ccontr)
    assume "raised s \<noteq> None"
    then have "run e body s = s" by (simp add: run_def)
    with assms \<open>raised s \<noteq> None\<close> show False by simp
  qed
  have c: "raised (run_calls e (fst body) s) = None"
  proof (rule ccontr)
    assume a: "raised (run_calls e (fst body) s) \<noteq> None"
    with n have "run e body s = run_calls e (fst body) s"
      by (simp add: run_def Let_def)
    with assms a show False by simp
  qed
  have b: "snd body = None"
  proof (rule ccontr)
    assume "snd body \<noteq> None"
    then obtain x where "snd body = Some x" by auto
    with n c have "raised (run e body s) = Some x"
      by (simp add: run_def Let_def)
    with assms show False by simp
  qed
  from n c b have "run e body s = run_calls e (fst body) s"
    by (simp add: run_def Let_def)
  with n b run_calls_normal [OF c] show ?thesis by simp
qed

lemma run_calls_frame:
  "run_calls e cs (s\<lparr>store := st\<rparr>) = (run_calls e cs s)\<lparr>store := st\<rparr>"
proof (induction cs arbitrary: s)
  case Nil
  show ?case by simp
next
  case (Cons c cs)
  show ?case
  proof (cases "fault e c")
    case None
    have "run_calls e (c # cs) (s\<lparr>store := st\<rparr>) =
            run_calls e cs ((s\<lparr>trace := trace s @ [c]\<rparr>)\<lparr>store := st\<rparr>)"
      using None by (cases s) simp
    also have "\<dots> = (run_calls e cs (s\<lparr>trace := trace s @ [c]\<rparr>))\<lparr>store := st\<rparr>"
      by (rule Cons.IH)
    finally show ?thesis using None by simp
  next
    case (Some x)
    then show ?thesis by simp
  qed
qed

lemma run_frame: "run e body (s\<lparr>store := st\<rparr>) = (run e body s)\<lparr>store := st\<rparr>"
  by (simp add: run_def Let_def run_calls_frame split: option.splits)

subsection \<open>The dataset record and the routines\<close>

lemma main_store: "store (main e s0) = store s0 @ [sample_of s0]"
  by (simp add: main_def Let_def create_sample_data_def sample_of_def
      plot_sorting_comparison_def plot_search_comparison_def plot_fibonacci_analysis_def
      create_complexity_cheatsheet_def)

text \<open>
  Claim C7. The sample dataset record is not mutated after creation: the sorting and the
  search routine leave every object of the store as it was, so the record they are given
  still equals the record the constructor returned; the same holds at the end of
  \<open>main\<close>.
\<close>

theorem dataset_not_mutated:
  "store (plot_search_comparison e data (plot_sorting_comparison e data s)) = store s \<and>
   (case create_sample_data s0 of (data, s1) \<Rightarrow>
      store (plot_search_comparison e data (plot_sorting_comparison e data s1)) ! data
        = sample_of s0) \<and>
   store (main e s0) = store s0 @ [sample_of s0]"
  by (simp add: plot_sorting_comparison_def plot_search_comparison_def main_store)
     (simp add: create_sample_data_def sample_of_def)

text \<open>
  Claim C8. The recursion-analysis routine takes no dataset and reads none: run on two
  states that differ only in the contents of the store, it makes the same calls with
  the same arguments and raises the same exception or none, and it leaves the store
  alone.
\<close>

theorem fibonacci_independent_of_dataset:
  "plot_fibonacci_analysis e (s\<lparr>store := st\<rparr>) = (plot_fibonacci_analysis e s)\<lparr>store := st\<rparr> \<and>
   trace (plot_fibonacci_analysis e (s\<lparr>store := st\<rparr>)) = trace (plot_fibonacci_analysis e s) \<and>
   raised (plot_fibonacci_analysis e (s\<lparr>store := st\<rparr>)) = raised (plot_fibonacci_analysis e s) \<and>
   store (plot_fibonacci_analysis e s) = store s"
  by (simp add: plot_fibonacci_analysis_def run_frame)

subsection \<open>The complexity reference\<close>

lemma logspace_pos: "x \<in> set (logspace a b n) \<Longrightarrow> 0 < x"
  by (auto simp: logspace_def)

lemma exp_curve_is_identity:
  "map (\<lambda>x. 2 powr log 2 x) (logspace a b n) = logspace a b n"
proof -
  have "map (\<lambda>x. 2 powr log 2 x) (logspace a b n) = map (\<lambda>x. x) (logspace a b n)"
    by (rule map_cong) (auto dest: logspace_pos)
  then show ?thesis by simp
qed

lemma logspace_first: "0 < n \<Longrightarrow> logspace a b n ! 0 = 10 powr a"
  by (simp add: logspace_def linspace_def del: upt_rec_numeral)

text \<open>
  Claim C4, evaluated on the code. The routine draws six log-log curves and three bands.
  The curve it labels O(2^n) is computed as \<^verbatim>\<open>2**np.log2(n)\<close>, which is \<open>n\<close> itself:
  it has the same values as the curve labelled O(n). At the first sample point,
  \<open>n = 10\<close>, its value is 10 (in floating point, 10 up to rounding), while 2 to the
  power 10 is 1024.
\<close>

theorem cheatsheet_exponential_curve_is_linear:
  "length (filter is_curve (fst create_complexity_cheatsheet_calls)) = 6 \<and>
   length (filter is_band (fst create_complexity_cheatsheet_calls)) = 3 \<and>
   fst create_complexity_cheatsheet_calls ! 6 =
     Loglog (logspace 1 4 1000) (map (\<lambda>x. 2 powr log 2 x) (logspace 1 4 1000)) []
       (''O(2'' @ supn @ '') - Naive Fibonacci'') \<and>
   fst create_complexity_cheatsheet_calls ! 3 =
     Loglog (logspace 1 4 1000) (logspace 1 4 1000) [] ''O(n) - Linear search'' \<and>
   map (\<lambda>x. 2 powr log 2 x) (logspace 1 4 1000) = logspace 1 4 1000 \<and>
   logspace 1 4 1000 ! 0 = 10 \<and>
   map (\<lambda>x. 2 powr log 2 x) (logspace 1 4 1000) ! 0 = 10 \<and>
   (2::real) powr (logspace 1 4 1000 ! 0) = 1024"
proof -
  have curves: "length (filter is_curve (fst create_complexity_cheatsheet_calls)) = 6"
    by (simp add: create_complexity_cheatsheet_calls_def Let_def is_curve_def)
  have bands: "length (filter is_band (fst create_complexity_cheatsheet_calls)) = 3"
    by (simp add: create_complexity_cheatsheet_calls_def Let_def is_band_def)
  have sixth: "fst create_complexity_cheatsheet_calls ! 6 =
     Loglog (logspace 1 4 1000) (map (\<lambda>x. 2 powr log 2 x) (logspace 1 4 1000)) []
       (''O(2'' @ supn @ '') - Naive Fibonacci'')"
    by (simp add: create_complexity_cheatsheet_calls_def Let_def)
  have third: "fst create_complexity_cheatsheet_calls ! 3 =
     Loglog (logspace 1 4 1000) (logspace 1 4 1000) [] ''O(n) - Linear search''"
    by (simp add: create_complexity_cheatsheet_calls_def Let_def)
  have first: "logspace 1 4 1000 ! 0 = 10"
    by (simp add: logspace_first)
  have val: "map (\<lambda>x. 2 powr log 2 x) (logspace 1 4 1000) ! 0 = 10"
    by (simp only: exp_curve_is_identity first)
  have pow: "(2::real) powr (logspace 1 4 1000 ! 0) = 1024"
    by (simp add: first)
  from curves bands sixth third exp_curve_is_identity [of 1 4 1000] first val pow
  show ?thesis by blast
qed

subsection \<open>Elementwise ratios\<close>

lemma np_divide_same_length:
  "length xs = length ys \<Longrightarrow> np_divide xs ys = Inr (map2 (/) xs ys)"
  by (simp add: np_divide_def)

lemma growth_rate_eq:
  "np_divide (tl t) (butlast t) = Inr (map (\<lambda>i. t ! (i + 1) / t ! i) [0..<length t - 1])"
proof -
  have "map2 (/) (tl t) (butlast t) = map (\<lambda>i. t ! (i + 1) / t ! i) [0..<length t - 1]"
    by (rule nth_equalityI) (simp_all add: nth_tl nth_butlast)
  then show ?thesis
    by (simp add: np_divide_same_length)
qed

text \<open>
  Claim C2. The efficiency ratio the search routine plots against the search sizes is the
  elementwise division of the linear-search timings by the binary-search timings (for
  arrays of equal length without a zero divisor); for the sample dataset the plotted
  list is [0.8/0.01, 4.2/0.015, 8.5/0.018, 42/0.025, 85/0.028], so the ratio at size
  10000, the third entry, is 8.5/0.018.
\<close>

theorem search_efficiency_ratio:
  "(length (linear_search d) = length (binary_search d) \<and> 0 \<notin> set (binary_search d) \<longrightarrow>
      snd (plot_search_comparison_calls d) = None \<and>
      Plot (search_sizes d) (map2 (/) (linear_search d) (binary_search d)) ''go-'' []
        \<in> set (fst (plot_search_comparison_calls d))) \<and>
   Plot [1000, 5000, 10000, 50000, 100000]
        [0.8 / 0.01, 4.2 / 0.015, 8.5 / 0.018, 42 / 0.025, 85 / 0.028] ''go-'' []
     \<in> set (fst (plot_search_comparison_calls (sample_of s)))"
proof -
  have general: "snd (plot_search_comparison_calls d) = None \<and>
      Plot (search_sizes d) (map2 (/) (linear_search d) (binary_search d)) ''go-'' []
        \<in> set (fst (plot_search_comparison_calls d))"
    if "length (linear_search d) = length (binary_search d)" for d
    using that by (simp add: plot_search_comparison_calls_def Let_def np_divide_same_length)
  have "length (linear_search (sample_of s)) = length (binary_search (sample_of s))"
    by (simp add: sample_of_eq)
  from general [OF this]
  have "Plot [1000, 5000, 10000, 50000, 100000]
        [0.8 / 0.01, 4.2 / 0.015, 8.5 / 0.018, 42 / 0.025, 85 / 0.028] ''go-'' []
     \<in> set (fst (plot_search_comparison_calls (sample_of s)))"
    by (simp add: sample_of_eq)
  with general show ?thesis by blast
qed

theorem search_efficiency_ratio_witness:
  "length (linear_search (sample_of init_state)) = length (binary_search (sample_of init_state)) \<and>
   0 \<notin> set (binary_search (sample_of init_state)) \<and>
   snd (plot_search_comparison_calls (sample_of init_state)) = None \<and>
   Plot (search_sizes (sample_of init_state))
        (map2 (/) (linear_search (sample_of init_state)) (binary_search (sample_of init_state)))
        ''go-'' []
     \<in> set (fst (plot_search_comparison_calls (sample_of init_state)))"
proof -
  have h: "length (linear_search (sample_of init_state)) = length (binary_search (sample_of init_state)) \<and>
   0 \<notin> set (binary_search (sample_of init_state))"
    by (simp add: sample_of_eq)
  with search_efficiency_ratio [of "sample_of init_state" init_state] show ?thesis
    by blast
qed

text \<open>
  Claim C3. The growth-rate bars of the sorting routine are \<open>time[i+1] / time[i]\<close> for
  each pair of consecutive sample sizes, for the bubble-sort and for the merge-sort
  timings (for a dataset with a non-empty sizes array and no zero timing); for the
  sample dataset the bubble-sort bars are [45/12, 280/45, 1100/280, 4400/1100], and the
  first one, for the transition from size 1000 to size 2000, is 45/12 = 3.75.
\<close>

theorem sorting_growth_rates:
  "(sizes d \<noteq> [] \<and> 0 \<notin> set (bubble_times d) \<and> 0 \<notin> set (merge_times d) \<longrightarrow>
      snd (plot_sorting_comparison_calls d) = None \<and>
      Bar (map (\<lambda>x. x - 0.2) (arange (length (bubble_times d) - 1)))
          (map (\<lambda>i. bubble_times d ! (i + 1) / bubble_times d ! i)
             [0..<length (bubble_times d) - 1])
          0.4 ''Bubble Sort Growth Rate''
        \<in> set (fst (plot_sorting_comparison_calls d)) \<and>
      Bar (map (\<lambda>x. x + 0.2) (arange (length (bubble_times d) - 1)))
          (map (\<lambda>i. merge_times d ! (i + 1) / merge_times d ! i)
             [0..<length (merge_times d) - 1])
          0.4 ''Merge Sort Growth Rate''
        \<in> set (fst (plot_sorting_comparison_calls d))) \<and>
   Bar [- 0.2, 0.8, 1.8, 2.8] [45 / 12, 280 / 45, 1100 / 280, 4400 / 1100]
       0.4 ''Bubble Sort Growth Rate''
     \<in> set (fst (plot_sorting_comparison_calls (sample_of s))) \<and>
   Bar [0.2, 1.2, 2.2, 3.2] [4 / 2, 12 / 4, 25 / 12, 55 / 25]
       0.4 ''Merge Sort Growth Rate''
     \<in> set (fst (plot_sorting_comparison_calls (sample_of s))) \<and>
   Xticks [0, 1, 2, 3] [(1000, 2000), (2000, 5000), (5000, 10000), (10000, 20000)]
     \<in> set (fst (plot_sorting_comparison_calls (sample_of s))) \<and>
   (45 / 12 :: real) = 3.75"
proof -
  have general: "snd (plot_sorting_comparison_calls d) = None \<and>
      Bar (map (\<lambda>x. x - 0.2) (arange (length (bubble_times d) - 1)))
          (map (\<lambda>i. bubble_times d ! (i + 1) / bubble_times d ! i)
             [0..<length (bubble_times d) - 1])
          0.4 ''Bubble Sort Growth Rate''
        \<in> set (fst (plot_sorting_comparison_calls d)) \<and>
      Bar (map (\<lambda>x. x + 0.2) (arange (length (bubble_times d) - 1)))
          (map (\<lambda>i. merge_times d ! (i + 1) / merge_times d ! i)
             [0..<length (merge_times d) - 1])
          0.4 ''Merge Sort Growth Rate''
        \<in> set (fst (plot_sorting_comparison_calls d))"
    if "sizes d \<noteq> []" for d
    using that by (simp add: plot_sorting_comparison_calls_def Let_def growth_rate_eq)
  have b: "Bar [- 0.2, 0.8, 1.8, 2.8] [45 / 12, 280 / 45, 1100 / 280, 4400 / 1100]
       0.4 ''Bubble Sort Growth Rate''
     \<in> set (fst (plot_sorting_comparison_calls (sample_of s)))"
    by (simp add: plot_sorting_comparison_calls_def Let_def np_divide_def sample_of_eq
        arange_def)
  have m: "Bar [0.2, 1.2, 2.2, 3.2] [4 / 2, 12 / 4, 25 / 12, 55 / 25]
       0.4 ''Merge Sort Growth Rate''
     \<in> set (fst (plot_sorting_comparison_calls (sample_of s)))"
    by (simp add: plot_sorting_comparison_calls_def Let_def np_divide_def sample_of_eq
        arange_def)
  have x: "Xticks [0, 1, 2, 3] [(1000, 2000), (2000, 5000), (5000, 10000), (10000, 20000)]
     \<in> set (fst (plot_sorting_comparison_calls (sample_of s)))"
    by (simp add: plot_sorting_comparison_calls_def Let_def np_divide_def sample_of_eq
        arange_def)
  have "(45 / 12 :: real) = 3.75" by simp
  with general b m x show ?thesis by blast
qed

theorem sorting_growth_rates_witness:
  "sizes (sample_of init_state) \<noteq> [] \<and>
   0 \<notin> set (bubble_times (sample_of init_state)) \<and>
   0 \<notin> set (merge_times (sample_of init_state)) \<and>
   snd (plot_sorting_comparison_calls (sample_of init_state)) = None \<and>
   Bar (map (\<lambda>x. x - 0.2) (arange (length (bubble_times (sample_of init_state)) - 1)))
       (map (\<lambda>i. bubble_times (sample_of init_state) ! (i + 1) /
                  bubble_times (sample_of init_state) ! i)
          [0..<length (bubble_times (sample_of init_state)) - 1])
       0.4 ''Bubble Sort Growth Rate''
     \<in> set (fst (plot_sorting_comparison_calls (sample_of init_state)))"
proof -
  have h: "sizes (sample_of init_state) \<noteq> [] \<and>
   0 \<notin> set (bubble_times (sample_of init_state)) \<and>
   0 \<notin> set (merge_times (sample_of init_state))"
    by (simp add: sample_of_eq)
  with sorting_growth_rates [of "sample_of init_state" init_state] show ?thesis
    by blast
qed

subsection \<open>What a complete run of main produces\<close>

lemma print_line_raised: "raised (print_line l s) = raised s"
  by (simp add: print_line_def)

lemma print_line_trace:
  "raised s = None \<Longrightarrow> trace (print_line l s) = trace s @ [Print l]"
  by (simp add: print_line_def)

lemma run_calls_raised:
  "raised s = None \<Longrightarrow>
     (raised (run_calls e cs s) = None) = list_all (\<lambda>c. fault e c = None) cs"
proof (induction cs arbitrary: s)
  case Nil
  then show ?case by simp
next
  case (Cons c cs)
  show ?case
  proof (cases "fault e c")
    case None
    have "raised (s\<lparr>trace := trace s @ [c]\<rparr>) = None"
      using Cons.prems by simp
    from Cons.IH [OF this] None show ?thesis by simp
  next
    case (Some x)
    then show ?thesis by simp
  qed
qed

lemma run_raised:
  "(raised (run e body s) = None) =
     (raised s = None \<and> list_all (\<lambda>c. fault e c = None) (fst body) \<and> snd body = None)"
proof (cases "raised s")
  case None
  note r = run_calls_raised [OF None, of e "fst body"]
  show ?thesis
  proof (cases "raised (run_calls e (fst body) s)")
    case None
    with \<open>raised s = None\<close> r show ?thesis
      by (simp add: run_def Let_def split: option.splits)
  next
    case (Some y)
    with \<open>raised s = None\<close> r show ?thesis
      by (simp add: run_def Let_def)
  qed
next
  case (Some x)
  then show ?thesis by (simp add: run_def)
qed

lemma run_trace:
  "raised (run e body s) = None \<Longrightarrow> trace (run e body s) = trace s @ fst body"
  using run_normal by blast

lemma sorting_outputs:
  assumes "snd (plot_sorting_comparison_calls d) = None"
  shows "filter is_output (fst (plot_sorting_comparison_calls d)) =
           [Savefig ''sorting_analysis.png'']"
proof (cases "sizes d = []")
  case True
  then have "snd (plot_sorting_comparison_calls d) \<noteq> None"
    by (simp add: plot_sorting_comparison_calls_def Let_def)
  with assms show ?thesis by simp
next
  case False
  then show ?thesis
    by (simp add: plot_sorting_comparison_calls_def Let_def growth_rate_eq is_output_def)
qed

lemma annotations_no_output:
  "filter is_output (map (\<lambda>(size, ratio). Annotate t ratio (size, ratio)) ps) = []"
  by (induction ps) (auto simp: is_output_def)

lemma search_outputs:
  assumes "snd (plot_search_comparison_calls d) = None"
  shows "filter is_output (fst (plot_search_comparison_calls d)) =
           [Savefig ''search_analysis.png'']"
proof (cases "np_divide (linear_search d) (binary_search d)")
  case (Inl x)
  then have "snd (plot_search_comparison_calls d) \<noteq> None"
    by (simp add: plot_search_comparison_calls_def Let_def)
  with assms show ?thesis by simp
next
  case (Inr r)
  then show ?thesis
    by (simp add: plot_search_comparison_calls_def Let_def annotations_no_output)
       (simp add: is_output_def)
qed

lemma fibonacci_outputs:
  "filter is_output (fst plot_fibonacci_analysis_calls) = [Savefig ''fibonacci_analysis.png'']"
  by (simp add: plot_fibonacci_analysis_calls_def is_output_def)

lemma cheatsheet_outputs:
  "filter is_output (fst create_complexity_cheatsheet_calls) =
     [Savefig ''complexity_cheatsheet.png'']"
  by (simp add: create_complexity_cheatsheet_calls_def Let_def is_output_def)

lemma sample_calls_complete:
  "snd (plot_sorting_comparison_calls (sample_of s)) = None"
  "snd (plot_search_comparison_calls (sample_of s)) = None"
  "snd plot_fibonacci_analysis_calls = None"
  "snd create_complexity_cheatsheet_calls = None"
  by (simp_all add: plot_sorting_comparison_calls_def plot_search_comparison_calls_def
      plot_fibonacci_analysis_calls_def create_complexity_cheatsheet_calls_def
      Let_def growth_rate_eq np_divide_def sample_of_eq)

lemma main_unfold:
  "main e init_state =
     print_line ''3. Modify column names to match your CSV structure''
      (print_line ''2. Replace the create_sample_data() function''
       (print_line ''1. Export measurements to CSV format''
        (print_line (CHR 0x0A # ''To use your own data:'')
         (print_line (CHR 0x0A # ''Analysis complete! Use these plots in your report.'')
          (print_line (check_mark @ '' Complexity reference chart saved as '' @
                sq @ ''complexity_cheatsheet.png'' @ sq)
           (run e create_complexity_cheatsheet_calls
            (print_line (check_mark @ '' Fibonacci recursion analysis saved as '' @
                sq @ ''fibonacci_analysis.png'' @ sq)
             (run e plot_fibonacci_analysis_calls
              (print_line (check_mark @ '' Search algorithm comparison saved as '' @
                sq @ ''search_analysis.png'' @ sq)
               (run e (plot_search_comparison_calls (sample_of init_state))
                (print_line (check_mark @ '' Sorting algorithm comparison saved as '' @
                sq @ ''sorting_analysis.png'' @ sq)
                 (run e (plot_sorting_comparison_calls (sample_of init_state))
                  (print_line ''Generating performance analysis plots...''
                   ((print_line (replicate 40 CHR ''='')
                     (print_line ''Algorithm Performance Analysis'' init_state))
                    \<lparr>store := [sample_of init_state]\<rparr>))))))))))))))"
  by (simp add: main_def Let_def create_sample_data_def sample_of_def
      plot_sorting_comparison_def plot_search_comparison_def plot_fibonacci_analysis_def
      create_complexity_cheatsheet_def init_state_def)

lemma main_trace:
  assumes "raised (main e init_state) = None"
  shows "trace (main e init_state) =
     [Print ''Algorithm Performance Analysis'',
      Print (replicate 40 CHR ''=''),
      Print ''Generating performance analysis plots...''] @
     fst (plot_sorting_comparison_calls (sample_of init_state)) @
     [Print (check_mark @ '' Sorting algorithm comparison saved as '' @
                sq @ ''sorting_analysis.png'' @ sq)] @
     fst (plot_search_comparison_calls (sample_of init_state)) @
     [Print (check_mark @ '' Search algorithm comparison saved as '' @
                sq @ ''search_analysis.png'' @ sq)] @
     fst plot_fibonacci_analysis_calls @
     [Print (check_mark @ '' Fibonacci recursion analysis saved as '' @
                sq @ ''fibonacci_analysis.png'' @ sq)] @
     fst create_complexity_cheatsheet_calls @
     [Print (check_mark @ '' Complexity reference chart saved as '' @
                sq @ ''complexity_cheatsheet.png'' @ sq),
      Print (CHR 0x0A # ''Analysis complete! Use these plots in your report.''),
      Print (CHR 0x0A # ''To use your own data:''),
      Print ''1. Export measurements to CSV format'',
      Print ''2. Replace the create_sample_data() function'',
      Print ''3. Modify column names to match your CSV structure'']"
  using assms unfolding main_unfold
  by (simp add: print_line_raised run_raised print_line_trace run_trace init_state_def)

text \<open>
  Claim C5. A run of \<open>main\<close> that completes (no exception raised) writes exactly four
  image files, \<^verbatim>\<open>sorting_analysis.png\<close>, \<^verbatim>\<open>search_analysis.png\<close>,
  \<^verbatim>\<open>fibonacci_analysis.png\<close> and \<^verbatim>\<open>complexity_cheatsheet.png\<close>, in that order, and
  prints exactly one confirmation line per file, each right after its file is written:
  the file writes and confirmation lines of the trace are exactly these eight events.
\<close>

theorem main_writes_four_files:
  assumes "raised (main e init_state) = None"
  shows "filter is_output (trace (main e init_state)) =
     [Savefig ''sorting_analysis.png'',
      Print (check_mark @ '' Sorting algorithm comparison saved as '' @
                sq @ ''sorting_analysis.png'' @ sq),
      Savefig ''search_analysis.png'',
      Print (check_mark @ '' Search algorithm comparison saved as '' @
                sq @ ''search_analysis.png'' @ sq),
      Savefig ''fibonacci_analysis.png'',
      Print (check_mark @ '' Fibonacci recursion analysis saved as '' @
                sq @ ''fibonacci_analysis.png'' @ sq),
      Savefig ''complexity_cheatsheet.png'',
      Print (check_mark @ '' Complexity reference chart saved as '' @
                sq @ ''complexity_cheatsheet.png'' @ sq)]"
proof -
  have prints: "is_output (Print (check_mark @ l))"
    "\<not> is_output (Print ''Algorithm Performance Analysis'')"
    "\<not> is_output (Print (replicate 40 CHR ''=''))"
    "\<not> is_output (Print ''Generating performance analysis plots...'')"
    "\<not> is_output (Print (CHR 0x0A # ''Analysis complete! Use these plots in your report.''))"
    "\<not> is_output (Print (CHR 0x0A # ''To use your own data:''))"
    "\<not> is_output (Print ''1. Export measurements to CSV format'')"
    "\<not> is_output (Print ''2. Replace the create_sample_data() function'')"
    "\<not> is_output (Print ''3. Modify column names to match your CSV structure'')" for l
    by (simp_all add: is_output_def check_mark_def numeral_eq_Suc)
  show ?thesis
    unfolding main_trace [OF assms] filter_append
    by (simp only: sorting_outputs search_outputs fibonacci_outputs cheatsheet_outputs
        sample_calls_complete prints filter.simps if_True if_False append.simps)
qed

lemma all_installed_completes: "raised (main all_installed init_state) = None"
  unfolding main_unfold
  by (simp add: print_line_raised run_raised sample_calls_complete init_state_def
      all_installed_def list.pred_True)

theorem main_writes_four_files_witness:
  "raised (main all_installed init_state) = None \<and>
   filter is_output (trace (main all_installed init_state)) =
     [Savefig ''sorting_analysis.png'',
      Print (check_mark @ '' Sorting algorithm comparison saved as '' @
                sq @ ''sorting_analysis.png'' @ sq),
      Savefig ''search_analysis.png'',
      Print (check_mark @ '' Search algorithm comparison saved as '' @
                sq @ ''search_analysis.png'' @ sq),
      Savefig ''fibonacci_analysis.png'',
      Print (check_mark @ '' Fibonacci recursion analysis saved as '' @
                sq @ ''fibonacci_analysis.png'' @ sq),
      Savefig ''complexity_cheatsheet.png'',
      Print (check_mark @ '' Complexity reference chart saved as '' @
                sq @ ''complexity_cheatsheet.png'' @ sq)]"
  using all_installed_completes main_writes_four_files [OF all_installed_completes]
  by simp

subsection \<open>The top level\<close>

text \<open>
  Claim C1, evaluated on the code. With matplotlib not installed, the import on line 12
  raises \<^verbatim>\<open>ModuleNotFoundError\<close> before the \<^verbatim>\<open>try\<close> block is entered: nothing is
  printed, the exception leaves the program uncaught, and the run ends with a failure
  status.
\<close>

theorem missing_matplotlib_uncaught:
  "program no_matplotlib =
     \<lparr>store = [], trace = [],
      raised = Some (PyExc ModuleNotFoundError (''No module named '' @ sq @ ''matplotlib'' @ sq))\<rparr> \<and>
   \<not> ends_normally (program no_matplotlib)"
  by (simp add: program_def module_imports_def import_module_def no_matplotlib_def
      init_state_def ends_normally_def Let_def)

text \<open>
  For contrast, the handlers do their work for an exception raised inside \<open>main\<close>:
  any exception of class \<^verbatim>\<open>Exception\<close> is caught, a message is printed last and
  the run ends normally; an \<^verbatim>\<open>ImportError\<close> raised by the library while the first
  figure is created gets the remediation hint.
\<close>

lemma program_catches_inside_main:
  assumes "import_error e = (\<lambda>m. None)"
    and "raised (main e init_state) = Some x"
    and "isinstance_Exception x"
  shows "raised (program e) = None \<and>
         (\<exists>l. last (trace (program e)) = Print l) \<and> ends_normally (program e)"
  using assms
  by (cases x)
     (auto simp: program_def module_imports_def import_module_def init_state_def Let_def
      print_line_def ends_normally_def)

lemma print_line_skip: "raised s = Some x \<Longrightarrow> print_line l s = s"
  by (simp add: print_line_def)

lemma run_skip: "raised s = Some x \<Longrightarrow> run e body s = s"
  by (simp add: run_def)

lemma run_first_call_fails:
  "raised s = None \<Longrightarrow> fst body = c # cs \<Longrightarrow> fault e c = Some x \<Longrightarrow>
     run e body s = s\<lparr>raised := Some x\<rparr>"
  by (simp add: run_def Let_def)

lemma backend_import_error_caught:
  "raised (program no_backend) = None \<and>
   trace (program no_backend) =
     [Print ''Algorithm Performance Analysis'',
      Print (replicate 40 CHR ''=''),
      Print ''Generating performance analysis plots...'',
      Print ''Missing required package: Cannot load backend'',
      Print ''Install with: pip install matplotlib pandas numpy'']"
proof -
  define s3 where "s3 =
    print_line ''Generating performance analysis plots...''
      ((print_line (replicate 40 CHR ''='')
         (print_line ''Algorithm Performance Analysis'' init_state))
       \<lparr>store := [sample_of init_state]\<rparr>)"
  define s4 where "s4 = run no_backend (plot_sorting_comparison_calls (sample_of init_state)) s3"
  have s3: "raised s3 = None"
    "trace s3 = [Print ''Algorithm Performance Analysis'', Print (replicate 40 CHR ''=''),
                 Print ''Generating performance analysis plots...'']"
    by (simp_all add: s3_def print_line_def init_state_def)
  have "\<exists>cs. fst (plot_sorting_comparison_calls d) = Figure # cs" for d
    by (simp add: plot_sorting_comparison_calls_def Let_def growth_rate_eq)
  then obtain cs where cs: "fst (plot_sorting_comparison_calls (sample_of init_state)) = Figure # cs"
    by blast
  have f: "fault no_backend Figure = Some (PyExc ImportError ''Cannot load backend'')"
    by (simp add: no_backend_def)
  have s4: "s4 = s3\<lparr>raised := Some (PyExc ImportError ''Cannot load backend'')\<rparr>"
    unfolding s4_def by (rule run_first_call_fails [OF s3(1) cs f])
  then have r4: "raised s4 = Some (PyExc ImportError ''Cannot load backend'')"
    by simp
  have m: "main no_backend init_state = s4"
    unfolding main_unfold s3_def [symmetric] s4_def [symmetric]
    by (simp add: print_line_skip [OF r4] run_skip [OF r4])
  have i: "module_imports no_backend init_state = init_state"
    by (simp add: module_imports_def import_module_def no_backend_def)
  show ?thesis
    by (simp add: program_def i m Let_def r4 s4 s3 print_line_def)
       (simp add: init_state_def)
qed

end
